theory Spec2Isabelle
  imports Complex_Main "HOL-Library.Multiset" "HOL-Library.Sublist" "HOL-Library.Word"
begin

text \<open>
  A model of the program \<open>computeSales.py\<close>: it loads a price catalogue and a sales
  record from two JSON files, adds up price times quantity over the sales, and prints and
  writes a report. The four functions of the source are \<open>load_json_file\<close>,
  \<open>build_price_dict\<close>, \<open>process_sales\<close> and \<open>main\<close>. A function that can raise
  returns a sum: \<open>Inl\<close> of the exception, or \<open>Inr\<close> of its result. What it prints is
  added to the output stream that it is given.
\<close>

section \<open>Python values of computeSales.py\<close>

subsection \<open>Floating-point numbers\<close>

text \<open>
  A Python \<open>float\<close> is an IEEE 754 binary64 number. A finite one is kept by its exact
  rational value, so that equality of two \<open>Fin\<close> values is Python's \<open>==\<close>; the two
  zeros \<open>0.0\<close> and \<open>-0.0\<close>, which \<open>==\<close> identifies, are both \<open>Fin 0\<close>.
  Every arithmetic result is the exact rational result rounded to the nearest
  binary64 number, ties to the even significand (\<open>rnd\<close>).
\<close>

datatype pyfloat = Fin rat | PInf | NInf | NaN

text \<open>The number of binary digits of a positive integer.\<close>

function bitlen :: "int \<Rightarrow> int" where
  "bitlen n = (if n \<le> 0 then 0 else 1 + bitlen (n div 2))"
  by pat_completeness auto
termination
  by (relation "measure nat") auto

declare bitlen.simps [simp del]

text \<open>
  The integer nearest to \<open>p / q\<close>, for \<open>q > 0\<close>; of two integers equally near, the
  even one.
\<close>

definition round_half_even :: "int \<Rightarrow> int \<Rightarrow> int" where
  "round_half_even p q =
     (let d = p div q; r = p mod q
      in if 2 * r < q then d
         else if q < 2 * r then d + 1
         else if even d then d else d + 1)"

text \<open>
  \<open>ilog2 p q\<close> is the binary exponent of the positive fraction \<open>p / q\<close>: the \<open>e\<close> with
  \<open>2 ^ e \<le> p / q < 2 ^ (e + 1)\<close>.
\<close>

definition ilog2 :: "int \<Rightarrow> int \<Rightarrow> int" where
  "ilog2 p q =
     (let k = bitlen p - bitlen q
      in if q * 2 ^ nat k \<le> p * 2 ^ nat (- k) then k else k - 1)"

text \<open>
  The magnitude of the binary64 number nearest to \<open>p / q > 0\<close>, before the overflow
  check, as a fraction of two integers: 53 significant bits, and no bit below
  \<open>2 ^ -1074\<close> (the subnormal range).
\<close>

definition rnd_frac :: "int \<Rightarrow> int \<Rightarrow> int \<times> int" where
  "rnd_frac p q =
     (let s = max (ilog2 p q - 52) (- 1074);
          n = round_half_even (p * 2 ^ nat (- s)) (q * 2 ^ nat s)
      in (n * 2 ^ nat s, 2 ^ nat (- s)))"

text \<open>A magnitude of \<open>2 ^ 1024\<close> or more overflows to an infinity.\<close>

definition rnd :: "rat \<Rightarrow> pyfloat" where
  "rnd x =
     (if x = 0 then Fin 0
      else (case quotient_of \<bar>x\<bar> of (p, q) \<Rightarrow>
             (case rnd_frac p q of (a, b) \<Rightarrow>
                if 2 ^ 1024 * b \<le> a then (if 0 < x then PInf else NInf)
                else Fin (if 0 < x then of_int a / of_int b
                          else - (of_int a / of_int b)))))"

fun fadd :: "pyfloat \<Rightarrow> pyfloat \<Rightarrow> pyfloat" where
  "fadd NaN _ = NaN"
| "fadd _ NaN = NaN"
| "fadd PInf NInf = NaN"
| "fadd NInf PInf = NaN"
| "fadd PInf _ = PInf"
| "fadd _ PInf = PInf"
| "fadd NInf _ = NInf"
| "fadd _ NInf = NInf"
| "fadd (Fin a) (Fin b) = rnd (a + b)"

fun fneg :: "pyfloat \<Rightarrow> pyfloat" where
  "fneg (Fin a) = Fin (- a)"
| "fneg PInf = NInf"
| "fneg NInf = PInf"
| "fneg NaN = NaN"

fun fsub :: "pyfloat \<Rightarrow> pyfloat \<Rightarrow> pyfloat" where
  "fsub a b = fadd a (fneg b)"

fun fsign :: "pyfloat \<Rightarrow> int" where
  "fsign (Fin a) = (if a < 0 then - 1 else if a = 0 then 0 else 1)"
| "fsign PInf = 1"
| "fsign NInf = - 1"
| "fsign NaN = 0"

fun fmul :: "pyfloat \<Rightarrow> pyfloat \<Rightarrow> pyfloat" where
  "fmul NaN _ = NaN"
| "fmul _ NaN = NaN"
| "fmul (Fin a) (Fin b) = rnd (a * b)"
| "fmul a b =
     (if fsign a * fsign b = 0 then NaN
      else if 0 < fsign a * fsign b then PInf else NInf)"


subsection \<open>Parsed JSON documents\<close>

text \<open>
  The value tree that \<open>json.load\<close> returns: \<open>None\<close>, \<open>bool\<close>, \<open>int\<close> (unbounded),
  \<open>float\<close>, \<open>str\<close>, \<open>list\<close> and \<open>dict\<close> with \<open>str\<close> keys. A \<open>dict\<close> is the list of the
  members of the JSON object in document order; a key that is repeated keeps its last
  value, as in \<open>json.load\<close>. A Python \<open>str\<close> is a \<open>string\<close>, one \<open>char\<close> for each code
  point below 256.
\<close>

datatype json =
    JNull
  | JBool bool
  | JInt int
  | JFloat pyfloat
  | JStr string
  | JArr "json list"
  | JObj "(string \<times> json) list"

datatype exn =
    OSError
  | JSONDecodeError
  | UnicodeDecodeError
  | ValueError
  | TypeError
  | AttributeError
  | OverflowError
  | RecursionError

text \<open>
  The exceptions that the calls of the program can raise. \<open>except ValueError\<close> also
  catches the subclasses \<open>json.JSONDecodeError\<close> and \<open>UnicodeDecodeError\<close>;
  \<open>IOError\<close> is \<open>OSError\<close>.
\<close>

fun is_ValueError :: "exn \<Rightarrow> bool" where
  "is_ValueError ValueError = True"
| "is_ValueError JSONDecodeError = True"
| "is_ValueError UnicodeDecodeError = True"
| "is_ValueError _ = False"

fun is_TypeError :: "exn \<Rightarrow> bool" where
  "is_TypeError TypeError = True"
| "is_TypeError _ = False"

fun is_IOError :: "exn \<Rightarrow> bool" where
  "is_IOError OSError = True"
| "is_IOError _ = False"

fun is_JSONDecodeError :: "exn \<Rightarrow> bool" where
  "is_JSONDecodeError JSONDecodeError = True"
| "is_JSONDecodeError _ = False"

fun is_list :: "json \<Rightarrow> bool" where
  "is_list (JArr _) = True"
| "is_list _ = False"

fun is_dict :: "json \<Rightarrow> bool" where
  "is_dict (JObj _) = True"
| "is_dict _ = False"

text \<open>\<open>x.get(key)\<close>: only a \<open>dict\<close> has the method; a missing key gives \<open>None\<close>.\<close>

fun py_get :: "json \<Rightarrow> string \<Rightarrow> exn + json" where
  "py_get (JObj kvs) key =
     Inr (case map_of (rev kvs) key of None \<Rightarrow> JNull | Some v \<Rightarrow> v)"
| "py_get _ key = Inl AttributeError"

subsection \<open>The conversion \<open>float(x)\<close>\<close>

definition is_digit :: "char \<Rightarrow> bool" where
  "is_digit c = (48 \<le> (of_char c :: int) \<and> (of_char c :: int) \<le> 57)"

definition is_space :: "char \<Rightarrow> bool" where
  "is_space c = ((of_char c :: int) \<in> {9, 10, 11, 12, 13, 32, 133, 160})"

definition py_strip :: "string \<Rightarrow> string" where
  "py_strip s = rev (dropWhile is_space (rev (dropWhile is_space s)))"

text \<open>An underscore is allowed only between two digits.\<close>

fun underscores_ok :: "char \<Rightarrow> string \<Rightarrow> bool" where
  "underscores_ok prev [] = (prev \<noteq> CHR ''_'')"
| "underscores_ok prev (c # cs) =
     ((if c = CHR ''_'' then is_digit prev
       else if prev = CHR ''_'' then is_digit c else True)
      \<and> underscores_ok c cs)"

definition digits_val :: "string \<Rightarrow> int" where
  "digits_val ds = foldl (\<lambda>a c. 10 * a + (of_char c - 48)) 0 ds"

definition pow10 :: "int \<Rightarrow> rat" where
  "pow10 e = (if 0 \<le> e then of_int (10 ^ nat e) else 1 / of_int (10 ^ nat (- e)))"

definition lower :: "char \<Rightarrow> char" where
  "lower c = (if 65 \<le> (of_char c :: int) \<and> (of_char c :: int) \<le> 90
              then char_of ((of_char c :: int) + 32) else c)"

fun split_sign :: "string \<Rightarrow> bool \<times> string" where
  "split_sign [] = (False, [])"
| "split_sign (c # cs) =
     (if c = CHR ''-'' then (True, cs)
      else if c = CHR ''+'' then (False, cs)
      else (False, c # cs))"

text \<open>
  The exponent part after the significand: nothing, or \<open>e\<close> or \<open>E\<close>, an optional sign
  and at least one digit.
\<close>

fun parse_exponent :: "string \<Rightarrow> int option" where
  "parse_exponent [] = Some 0"
| "parse_exponent (c # cs) =
     (if c = CHR ''e'' \<or> c = CHR ''E''
      then (case split_sign cs of (neg, ds) \<Rightarrow>
              if ds \<noteq> [] \<and> list_all is_digit ds
              then Some (if neg then - digits_val ds else digits_val ds)
              else None)
      else None)"

text \<open>
  An unsigned decimal literal: digits, an optional point and digits, with a digit on
  at least one side of the point, and an optional exponent. The result is the exact
  rational value.
\<close>

definition parse_decimal :: "string \<Rightarrow> rat option" where
  "parse_decimal s =
     (let ip = takeWhile is_digit s; r1 = dropWhile is_digit s;
          fp = (case r1 of [] \<Rightarrow> [] | c # t \<Rightarrow>
                  if c = CHR ''.'' then takeWhile is_digit t else []);
          r2 = (case r1 of [] \<Rightarrow> [] | c # t \<Rightarrow>
                  if c = CHR ''.'' then dropWhile is_digit t else r1)
      in if ip = [] \<and> fp = [] then None
         else (case parse_exponent r2 of
                 None \<Rightarrow> None
               | Some e \<Rightarrow>
                   Some (of_int (digits_val (ip @ fp)) * pow10 (e - int (length fp)))))"

text \<open>
  \<open>float(s)\<close> for a string: surrounding white space is dropped, then an optional sign
  and \<open>inf\<close>, \<open>infinity\<close> or \<open>nan\<close> in any case, or a decimal literal, rounded to the
  nearest binary64 number. \<open>None\<close> is \<open>ValueError\<close>.
\<close>

definition float_of_str :: "string \<Rightarrow> pyfloat option" where
  "float_of_str s0 =
     (let s = py_strip s0
      in if \<not> underscores_ok (CHR 0x00) s then None
         else (case split_sign (filter (\<lambda>c. c \<noteq> CHR ''_'') s) of (neg, t) \<Rightarrow>
           if map lower t = ''inf'' \<or> map lower t = ''infinity''
             then Some (if neg then NInf else PInf)
           else if map lower t = ''nan'' then Some NaN
           else (case parse_decimal t of
                   None \<Rightarrow> None
                 | Some x \<Rightarrow> Some (rnd (if neg then - x else x)))))"

text \<open>
  \<open>float(x)\<close> for a parsed value: \<open>True\<close> is \<open>1.0\<close>; an \<open>int\<close> is rounded to the
  nearest float and raises \<open>OverflowError\<close> when it is too large; a \<open>list\<close>, a \<open>dict\<close>
  and \<open>None\<close> raise \<open>TypeError\<close>; a string that is not a number raises \<open>ValueError\<close>.
\<close>

fun py_float :: "json \<Rightarrow> exn + pyfloat" where
  "py_float JNull = Inl TypeError"
| "py_float (JBool b) = Inr (Fin (if b then 1 else 0))"
| "py_float (JInt i) =
     (case rnd (of_int i) of Fin x \<Rightarrow> Inr (Fin x) | _ \<Rightarrow> Inl OverflowError)"
| "py_float (JFloat f) = Inr f"
| "py_float (JStr s) =
     (case float_of_str s of None \<Rightarrow> Inl ValueError | Some f \<Rightarrow> Inr f)"
| "py_float (JArr _) = Inl TypeError"
| "py_float (JObj _) = Inl TypeError"

subsection \<open>Dictionary keys\<close>

text \<open>
  The keys of \<open>price_dict\<close> are the \<open>title\<close> values, compared by Python's \<open>==\<close> and
  hash: \<open>1\<close>, \<open>1.0\<close> and \<open>True\<close> are one key. All \<open>NaN\<close> values of a parsed document
  are the one object \<open>json.decoder.NaN\<close>, found by identity. A \<open>list\<close> or a \<open>dict\<close> is
  unhashable: using it as a key raises \<open>TypeError\<close>.
\<close>

datatype pykey = KNone | KStr string | KNum rat | KPInf | KNInf | KNaN

fun py_hash :: "json \<Rightarrow> exn + pykey" where
  "py_hash JNull = Inr KNone"
| "py_hash (JBool b) = Inr (KNum (if b then 1 else 0))"
| "py_hash (JInt i) = Inr (KNum (of_int i))"
| "py_hash (JFloat (Fin x)) = Inr (KNum x)"
| "py_hash (JFloat PInf) = Inr KPInf"
| "py_hash (JFloat NInf) = Inr KNInf"
| "py_hash (JFloat NaN) = Inr KNaN"
| "py_hash (JStr s) = Inr (KStr s)"
| "py_hash (JArr _) = Inl TypeError"
| "py_hash (JObj _) = Inl TypeError"

type_synonym price_dict = "pykey \<rightharpoonup> pyfloat"

text \<open>\<open>d.get(key)\<close> on \<open>price_dict\<close>: hashes the key, then looks it up.\<close>

definition dict_get :: "price_dict \<Rightarrow> json \<Rightarrow> exn + pyfloat option" where
  "dict_get d key = (case py_hash key of Inl e \<Rightarrow> Inl e | Inr k \<Rightarrow> Inr (d k))"


section \<open>The program\<close>

subsection \<open>Standard output\<close>

text \<open>
  Each \<open>print\<close> call of the program is one constructor, in the order of the source
  (lines 34, 59, 64, 71, 76, 80, 103, 108, 116, 123, 129, 147, 158, 163, 178 and 184);
  a value that the message formats (a file name, an exception, a title, a product,
  the report) is its argument. The output stream is the list of the messages printed
  so far, and it accepts every message: its encoding can represent the text.
\<close>

datatype message =
    Msg_read_error string exn
  | Msg_product_missing_field
  | Msg_product_price_invalid json
  | Msg_catalogue_missing_field
  | Msg_catalogue_price_invalid json
  | Msg_catalogue_format
  | Msg_sales_format
  | Msg_sale_not_dict
  | Msg_sale_missing_field
  | Msg_quantity_invalid json
  | Msg_product_not_found json
  | Msg_usage
  | Msg_catalogue_load_failed
  | Msg_sales_load_failed
  | Msg_result string
  | Msg_write_error exn

definition print :: "message \<Rightarrow> message list \<Rightarrow> message list" where
  "print m out = out @ [m]"

subsection \<open>\<open>build_price_dict\<close>\<close>

text \<open>
  The \<open>for\<close> loop over a catalogue list. An exception that no \<open>except\<close> clause
  catches ends the function: the result is \<open>Inl\<close> of it, with the output printed so far.
\<close>

fun build_price_loop ::
  "json list \<Rightarrow> price_dict \<Rightarrow> message list \<Rightarrow> (exn + price_dict) \<times> message list" where
  "build_price_loop [] price_dict out = (Inr price_dict, out)"
| "build_price_loop (product # rest) price_dict out =
     (case py_get product ''title'' of
        Inl e \<Rightarrow> (Inl e, out)
      | Inr title \<Rightarrow>
     (case py_get product ''price'' of
        Inl e \<Rightarrow> (Inl e, out)
      | Inr price \<Rightarrow>
          if title = JNull \<or> price = JNull
          then build_price_loop rest price_dict (print Msg_product_missing_field out)
          else (case py_float price of
                  Inl e \<Rightarrow>
                    if is_ValueError e
                    then build_price_loop rest price_dict
                           (print (Msg_product_price_invalid title) out)
                    else (Inl e, out)
                | Inr price' \<Rightarrow>
                    (case py_hash title of
                       Inl e \<Rightarrow> (Inl e, out)
                     | Inr k \<Rightarrow> build_price_loop rest (price_dict(k \<mapsto> price')) out))))"

definition build_price_dict ::
  "json \<Rightarrow> message list \<Rightarrow> (exn + price_dict) \<times> message list" where
  "build_price_dict price_data out =
     (case price_data of
        JArr products \<Rightarrow> build_price_loop products Map.empty out
      | JObj kvs \<Rightarrow>
          (case py_get price_data ''title'' of
             Inl e \<Rightarrow> (Inl e, out)
           | Inr title \<Rightarrow>
          (case py_get price_data ''price'' of
             Inl e \<Rightarrow> (Inl e, out)
           | Inr price \<Rightarrow>
               if title = JNull \<or> price = JNull
               then (Inr Map.empty, print Msg_catalogue_missing_field out)
               else (case py_float price of
                       Inl e \<Rightarrow>
                         if is_ValueError e
                         then (Inr Map.empty,
                               print (Msg_catalogue_price_invalid title) out)
                         else (Inl e, out)
                     | Inr price' \<Rightarrow>
                         (case py_hash title of
                            Inl e \<Rightarrow> (Inl e, out)
                          | Inr k \<Rightarrow> (Inr (Map.empty(k \<mapsto> price')), out)))))
      | _ \<Rightarrow> (Inr Map.empty, print Msg_catalogue_format out))"

subsection \<open>\<open>process_sales\<close>\<close>

text \<open>
  \<open>process_sales\<close> receives \<open>price_dict\<close> by reference, so the dictionary is part of
  the memory that the function runs in, next to the output stream.
\<close>

record mem =
  price_dict :: price_dict
  stdout :: "message list"

definition say :: "message \<Rightarrow> mem \<Rightarrow> mem" where
  "say m s = s\<lparr>stdout := print m (stdout s)\<rparr>"

fun process_sales_loop ::
  "json list \<Rightarrow> pyfloat \<Rightarrow> nat \<Rightarrow> mem \<Rightarrow> (exn + pyfloat \<times> nat) \<times> mem" where
  "process_sales_loop [] total_cost error_count s = (Inr (total_cost, error_count), s)"
| "process_sales_loop (sale # rest) total_cost error_count s =
     (if \<not> is_dict sale
      then process_sales_loop rest total_cost (error_count + 1) (say Msg_sale_not_dict s)
      else
     (case py_get sale ''Product'' of
        Inl e \<Rightarrow> (Inl e, s)
      | Inr product \<Rightarrow>
     (case py_get sale ''Quantity'' of
        Inl e \<Rightarrow> (Inl e, s)
      | Inr quantity \<Rightarrow>
          if product = JNull \<or> quantity = JNull
          then process_sales_loop rest total_cost (error_count + 1)
                 (say Msg_sale_missing_field s)
          else (case py_float quantity of
                  Inl e \<Rightarrow>
                    if is_ValueError e \<or> is_TypeError e
                    then process_sales_loop rest total_cost (error_count + 1)
                           (say (Msg_quantity_invalid product) s)
                    else (Inl e, s)
                | Inr quantity' \<Rightarrow>
                    (case dict_get (price_dict s) product of
                       Inl e \<Rightarrow> (Inl e, s)
                     | Inr None \<Rightarrow>
                         process_sales_loop rest total_cost (error_count + 1)
                           (say (Msg_product_not_found product) s)
                     | Inr (Some price) \<Rightarrow>
                         process_sales_loop rest
                           (fadd total_cost (fmul price quantity')) error_count s)))))"

definition process_sales :: "json \<Rightarrow> mem \<Rightarrow> (exn + pyfloat \<times> nat) \<times> mem" where
  "process_sales sales_data s =
     (case sales_data of
        JArr sales \<Rightarrow> process_sales_loop sales (Fin 0) 0 s
      | _ \<Rightarrow> (Inr (Fin 0, 0), say Msg_sales_format s))"


subsection \<open>Files and \<open>load_json_file\<close>\<close>

text \<open>
  The file system maps a path to a regular file with its bytes, or to a node that
  cannot be opened (no permission, a directory); a path that is not mapped does not
  exist. The clock gives the successive results of \<open>time.time()\<close>.
\<close>

type_synonym byte = "8 word"

datatype fnode = Regular "byte list" | Unopenable

record world =
  argv :: "string list"
  files :: "string \<rightharpoonup> fnode"
  console :: "message list"
  clock :: "nat \<Rightarrow> pyfloat"
  ticks :: nat

definition open_read :: "world \<Rightarrow> string \<Rightarrow> exn + byte list" where
  "open_read w filename =
     (case files w filename of
        None \<Rightarrow> Inl OSError
      | Some Unopenable \<Rightarrow> Inl OSError
      | Some (Regular bs) \<Rightarrow> Inr bs)"

definition is_cont :: "byte \<Rightarrow> bool" where
  "is_cont b = (0x80 \<le> unat b \<and> unat b \<le> 0xBF)"

definition cont_bits :: "byte \<Rightarrow> nat" where
  "cont_bits b = unat b - 0x80"

text \<open>
  The strict UTF-8 decoder of \<open>encoding='utf-8'\<close>: the code points of the text, or
  \<open>None\<close> for \<open>UnicodeDecodeError\<close> (an invalid start byte, a missing or invalid
  continuation byte, an overlong form, a surrogate, a code point above \<open>0x10FFFF\<close>).
\<close>

fun utf8_decode :: "byte list \<Rightarrow> nat list option" where
  "utf8_decode [] = Some []"
| "utf8_decode (b # bs) =
     (if unat b < 0x80 then map_option ((#) (unat b)) (utf8_decode bs)
      else if 0xC2 \<le> unat b \<and> unat b \<le> 0xDF then
        (case bs of
           c1 # r \<Rightarrow>
             if is_cont c1
             then map_option ((#) ((unat b - 0xC0) * 64 + cont_bits c1)) (utf8_decode r)
             else None
         | _ \<Rightarrow> None)
      else if 0xE0 \<le> unat b \<and> unat b \<le> 0xEF then
        (case bs of
           c1 # c2 # r \<Rightarrow>
             if is_cont c1 \<and> is_cont c2
                \<and> (if unat b = 0xE0 then 0xA0 \<le> unat c1 else True)
                \<and> (if unat b = 0xED then unat c1 \<le> 0x9F else True)
             then map_option
                    ((#) ((unat b - 0xE0) * 4096 + cont_bits c1 * 64 + cont_bits c2))
                    (utf8_decode r)
             else None
         | _ \<Rightarrow> None)
      else if 0xF0 \<le> unat b \<and> unat b \<le> 0xF4 then
        (case bs of
           c1 # c2 # c3 # r \<Rightarrow>
             if is_cont c1 \<and> is_cont c2 \<and> is_cont c3
                \<and> (if unat b = 0xF0 then 0x90 \<le> unat c1 else True)
                \<and> (if unat b = 0xF4 then unat c1 \<le> 0x8F else True)
             then map_option
                    ((#) ((unat b - 0xF0) * 262144 + cont_bits c1 * 4096
                          + cont_bits c2 * 64 + cont_bits c3))
                    (utf8_decode r)
             else None
         | _ \<Rightarrow> None)
      else None)"

text \<open>Reading in text mode turns \<open>\r\n\<close> and a lone \<open>\r\<close> into \<open>\n\<close>.\<close>

fun translate_newlines :: "bool \<Rightarrow> nat list \<Rightarrow> nat list" where
  "translate_newlines after_cr [] = []"
| "translate_newlines after_cr (c # cs) =
     (if c = 13 then 10 # translate_newlines True cs
      else if c = 10 \<and> after_cr then translate_newlines False cs
      else c # translate_newlines False cs)"

text \<open>
  \<open>json.load(f)\<close> reads and decodes the whole file, then parses the text. The parser
  of the \<open>json\<close> library is the parameter \<open>loads\<close>: the parsed value, or the exception
  that it raises.
\<close>

definition json_load :: "(nat list \<Rightarrow> exn + json) \<Rightarrow> byte list \<Rightarrow> exn + json" where
  "json_load loads bs =
     (case utf8_decode bs of
        None \<Rightarrow> Inl UnicodeDecodeError
      | Some text \<Rightarrow> loads (translate_newlines False text))"

definition load_json_file ::
  "(nat list \<Rightarrow> exn + json) \<Rightarrow> string \<Rightarrow> world \<Rightarrow> (exn + json) \<times> world" where
  "load_json_file loads filename w =
     (case (case open_read w filename of
              Inl e \<Rightarrow> Inl e
            | Inr bs \<Rightarrow> json_load loads bs) of
        Inr data \<Rightarrow> (Inr data, w)
      | Inl e \<Rightarrow>
          if is_IOError e \<or> is_JSONDecodeError e
          then (Inr JNull, w\<lparr>console := print (Msg_read_error filename e) (console w)\<rparr>)
          else (Inl e, w))"

subsection \<open>\<open>main\<close>\<close>

function digits_of :: "int \<Rightarrow> string" where
  "digits_of n =
     (if n < 10 then [char_of (48 + n)]
      else digits_of (n div 10) @ [char_of (48 + n mod 10)])"
  by pat_completeness auto
termination
  by (relation "measure nat") auto

declare digits_of.simps [simp del]

text \<open>
  The format \<open>:.2f\<close>: the exact value rounded to two decimals, ties to even. (For
  the float \<open>-0.0\<close>, which is \<open>Fin 0\<close> here, Python prints \<open>-0.00\<close>.)
\<close>

fun format_2f :: "pyfloat \<Rightarrow> string" where
  "format_2f (Fin x) =
     (case quotient_of (\<bar>x\<bar> * 100) of (p, q) \<Rightarrow>
        (if x < 0 then ''-'' else '''')
        @ digits_of (round_half_even p q div 100) @ ''.''
        @ [char_of (48 + round_half_even p q mod 100 div 10),
           char_of (48 + round_half_even p q mod 10)])"
| "format_2f PInf = ''inf''"
| "format_2f NInf = ''-inf''"
| "format_2f NaN = ''nan''"

definition result_str :: "pyfloat \<Rightarrow> nat \<Rightarrow> pyfloat \<Rightarrow> string" where
  "result_str total_cost error_count elapsed_time =
     ''Resultados de la Computaci'' @ [CHR 0xF3] @ ''n de Ventas'' @ [CHR 0x0A]
     @ ''-------------------------------------'' @ [CHR 0x0A]
     @ ''Costo Total: $'' @ format_2f total_cost @ [CHR 0x0A]
     @ ''Errores encontrados: '' @ digits_of (int error_count) @ [CHR 0x0A]
     @ ''Tiempo de Ejecuci'' @ [CHR 0xF3] @ ''n: '' @ format_2f elapsed_time
     @ '' segundos'' @ [CHR 0x0A]"

definition utf8_encode :: "string \<Rightarrow> byte list" where
  "utf8_encode s =
     concat (map (\<lambda>c. if (of_char c :: nat) < 0x80 then [of_char c]
                        else [of_nat (0xC0 + (of_char c :: nat) div 64),
                              of_nat (0x80 + (of_char c :: nat) mod 64)]) s)"

text \<open>
  Opening a file for writing creates it or replaces its content, or raises \<open>OSError\<close>
  and leaves the file system as it is. The text is written in UTF-8, its line ends as
  they are.
\<close>

definition write_file :: "world \<Rightarrow> string \<Rightarrow> byte list \<Rightarrow> exn + world" where
  "write_file w filename bs =
     (case files w filename of
        Some Unopenable \<Rightarrow> Inl OSError
      | _ \<Rightarrow> Inr (w\<lparr>files := (files w)(filename \<mapsto> Regular bs)\<rparr>))"

definition time_time :: "world \<Rightarrow> pyfloat \<times> world" where
  "time_time w = (clock w (ticks w), w\<lparr>ticks := ticks w + 1\<rparr>)"

text \<open>
  How the process ends: with an exit status (\<open>sys.exit(1)\<close>, or \<open>0\<close> when \<open>main\<close>
  returns), or with the traceback of an exception that nothing caught.
\<close>

datatype status = Exit nat | Traceback exn

definition main :: "(nat list \<Rightarrow> exn + json) \<Rightarrow> world \<Rightarrow> status \<times> world" where
  "main loads w0 =
     (case time_time w0 of (start_time, w1) \<Rightarrow>
      if length (argv w1) \<noteq> 3
      then (Exit 1, w1\<lparr>console := print Msg_usage (console w1)\<rparr>)
      else
     (case load_json_file loads (argv w1 ! 1) w1 of
        (Inl e, w2) \<Rightarrow> (Traceback e, w2)
      | (Inr price_data, w2) \<Rightarrow>
      if price_data = JNull
      then (Exit 1, w2\<lparr>console := print Msg_catalogue_load_failed (console w2)\<rparr>)
      else
     (case load_json_file loads (argv w1 ! 2) w2 of
        (Inl e, w3) \<Rightarrow> (Traceback e, w3)
      | (Inr sales_data, w3) \<Rightarrow>
      if sales_data = JNull
      then (Exit 1, w3\<lparr>console := print Msg_sales_load_failed (console w3)\<rparr>)
      else
     (case build_price_dict price_data (console w3) of
        (Inl e, out) \<Rightarrow> (Traceback e, w3\<lparr>console := out\<rparr>)
      | (Inr d, out) \<Rightarrow>
     (case process_sales sales_data \<lparr>price_dict = d, stdout = out\<rparr> of
        (Inl e, m) \<Rightarrow> (Traceback e, w3\<lparr>console := stdout m\<rparr>)
      | (Inr (total_cost, error_count), m) \<Rightarrow>
     (case time_time (w3\<lparr>console := stdout m\<rparr>) of (end_time, w4) \<Rightarrow>
     (case w4\<lparr>console :=
                 print (Msg_result
                          (result_str total_cost error_count (fsub end_time start_time)))
                   (console w4)\<rparr> of w5 \<Rightarrow>
     (case write_file w5 ''SalesResults.txt''
             (utf8_encode (result_str total_cost error_count (fsub end_time start_time))) of
        Inl e \<Rightarrow>
          if is_IOError e
          then (Exit 0, w5\<lparr>console := print (Msg_write_error e) (console w5)\<rparr>)
          else (Traceback e, w5)
      | Inr w6 \<Rightarrow> (Exit 0, w6)))))))))"

subsection \<open>One iteration of the sales loop\<close>

text \<open>
  What the body of the \<open>for\<close> loop of \<open>process_sales\<close> does with one record: it adds
  a cost to the total, or prints a message and counts an error, or raises.
\<close>

datatype outcome = Accept pyfloat | Reject message | Raise exn

definition sale_step :: "price_dict \<Rightarrow> json \<Rightarrow> outcome" where
  "sale_step d sale =
     (if \<not> is_dict sale then Reject Msg_sale_not_dict
      else
     (case py_get sale ''Product'' of
        Inl e \<Rightarrow> Raise e
      | Inr product \<Rightarrow>
     (case py_get sale ''Quantity'' of
        Inl e \<Rightarrow> Raise e
      | Inr quantity \<Rightarrow>
          if product = JNull \<or> quantity = JNull then Reject Msg_sale_missing_field
          else (case py_float quantity of
                  Inl e \<Rightarrow>
                    if is_ValueError e \<or> is_TypeError e
                    then Reject (Msg_quantity_invalid product)
                    else Raise e
                | Inr quantity' \<Rightarrow>
                    (case dict_get d product of
                       Inl e \<Rightarrow> Raise e
                     | Inr None \<Rightarrow> Reject (Msg_product_not_found product)
                     | Inr (Some price) \<Rightarrow> Accept (fmul price quantity'))))))"

subsection \<open>One iteration of the catalogue loop\<close>

text \<open>
  What the body of the \<open>for\<close> loop of \<open>build_price_dict\<close> does with one element: it
  stores a price under a key, or prints a message and skips the element, or raises.
\<close>

datatype entry_outcome = Insert pykey pyfloat | Skip message | Entry_raise exn

definition entry_step :: "json \<Rightarrow> entry_outcome" where
  "entry_step product =
     (case py_get product ''title'' of
        Inl e \<Rightarrow> Entry_raise e
      | Inr title \<Rightarrow>
     (case py_get product ''price'' of
        Inl e \<Rightarrow> Entry_raise e
      | Inr price \<Rightarrow>
          if title = JNull \<or> price = JNull then Skip Msg_product_missing_field
          else (case py_float price of
                  Inl e \<Rightarrow>
                    if is_ValueError e then Skip (Msg_product_price_invalid title)
                    else Entry_raise e
                | Inr price' \<Rightarrow>
                    (case py_hash title of
                       Inl e \<Rightarrow> Entry_raise e
                     | Inr k \<Rightarrow> Insert k price'))))"

subsection \<open>The notions of the specification\<close>

text \<open>
  A valid catalogue entry, in the words of the specification: a mapping with a \<open>title\<close>
  and a \<open>price\<close> field, the price coercible to a number. Its title is the key of the
  entry, its coerced price the value.
\<close>

definition valid_entry :: "json \<Rightarrow> (pykey \<times> pyfloat) option" where
  "valid_entry product =
     (case (py_get product ''title'', py_get product ''price'') of
        (Inr title, Inr price) \<Rightarrow>
          (case (py_hash title, py_float price) of
             (Inr k, Inr p) \<Rightarrow> if title = JNull \<or> price = JNull then None else Some (k, p)
           | _ \<Rightarrow> None)
      | _ \<Rightarrow> None)"

text \<open>
  The message for a catalogue entry that is skipped, in the words of the specification:
  a missing \<open>title\<close> or \<open>price\<close> is logged, and so is a price that is present but
  not numeric, naming the title. A valid entry has no message.
\<close>

definition entry_message :: "json \<Rightarrow> message option" where
  "entry_message product =
     (case (py_get product ''title'', py_get product ''price'') of
        (Inr title, Inr price) \<Rightarrow>
          if title = JNull \<or> price = JNull then Some Msg_product_missing_field
          else (case py_float price of
                  Inl e \<Rightarrow>
                    if is_ValueError e then Some (Msg_product_price_invalid title) else None
                | Inr p \<Rightarrow> None)
      | _ \<Rightarrow> None)"


text \<open>
  A valid sale record, in the words of the specification: mapping-shaped, with both
  \<open>Product\<close> and \<open>Quantity\<close> present, the quantity coercible to a number, and the
  product a key of the catalogue mapping. Its value is the price of the product times
  the quantity.
\<close>

definition sale_value :: "price_dict \<Rightarrow> json \<Rightarrow> pyfloat option" where
  "sale_value d sale =
     (if is_dict sale
      then (case (py_get sale ''Product'', py_get sale ''Quantity'') of
              (Inr product, Inr quantity) \<Rightarrow>
                (case (py_float quantity, dict_get d product) of
                   (Inr q, Inr (Some price)) \<Rightarrow>
                     if product = JNull \<or> quantity = JNull then None
                     else Some (fmul price q)
                 | _ \<Rightarrow> None)
            | _ \<Rightarrow> None)
      else None)"

definition valid_sale :: "price_dict \<Rightarrow> json \<Rightarrow> bool" where
  "valid_sale d sale = (sale_value d sale \<noteq> None)"

definition sale_cost :: "price_dict \<Rightarrow> json \<Rightarrow> pyfloat" where
  "sale_cost d sale = (case sale_value d sale of None \<Rightarrow> Fin 0 | Some c \<Rightarrow> c)"

definition sale_raises :: "price_dict \<Rightarrow> json \<Rightarrow> bool" where
  "sale_raises d sale = (case sale_step d sale of Raise e \<Rightarrow> True | _ \<Rightarrow> False)"

fun is_fin :: "pyfloat \<Rightarrow> bool" where
  "is_fin (Fin x) = True"
| "is_fin _ = False"

fun fin_value :: "pyfloat \<Rightarrow> rat" where
  "fin_value (Fin x) = x"
| "fin_value _ = 0"

text \<open>
  The costs \<open>cs\<close> add up without rounding in whatever order they are taken: all are
  finite, and the exact sum of every sub-collection of them is a binary64 number.
\<close>

definition exact_sums :: "pyfloat list \<Rightarrow> bool" where
  "exact_sums cs =
     (list_all is_fin cs \<and>
      list_all (\<lambda>ys. rnd (sum_list ys) = Fin (sum_list ys)) (subseqs (map fin_value cs)))"

text \<open>A float that is not negative: zero, a positive number or \<open>inf\<close>, but not \<open>nan\<close>.\<close>

fun nonneg :: "pyfloat \<Rightarrow> bool" where
  "nonneg (Fin x) = (0 \<le> x)"
| "nonneg PInf = True"
| "nonneg NInf = False"
| "nonneg NaN = False"

fun fin_nonneg :: "pyfloat \<Rightarrow> bool" where
  "fin_nonneg (Fin x) = (0 \<le> x)"
| "fin_nonneg _ = False"

text \<open>The records of a sales document: the elements of a list, none otherwise.\<close>

fun sale_records :: "json \<Rightarrow> json list" where
  "sale_records (JArr sales) = sales"
| "sale_records _ = []"

text \<open>Every quantity of the sales list that coerces to a number is finite and not negative.\<close>

definition quantities_nonneg :: "json list \<Rightarrow> bool" where
  "quantities_nonneg sales =
     (\<forall>sale \<in> set sales. \<forall>quantity q.
        py_get sale ''Quantity'' = Inr quantity \<longrightarrow> py_float quantity = Inr q \<longrightarrow> fin_nonneg q)"

text \<open>Every price of the catalogue mapping is finite and not negative.\<close>

definition prices_nonneg :: "price_dict \<Rightarrow> bool" where
  "prices_nonneg d = (\<forall>p \<in> ran d. fin_nonneg p)"

subsection \<open>Example documents\<close>

definition catalogue_entry :: "string \<Rightarrow> json \<Rightarrow> json" where
  "catalogue_entry title price = JObj [(''title'', JStr title), (''price'', price)]"

definition sale_record :: "string \<Rightarrow> json \<Rightarrow> json" where
  "sale_record product quantity = JObj [(''Product'', JStr product), (''Quantity'', quantity)]"

definition with_prices :: "price_dict \<Rightarrow> mem" where
  "with_prices d = \<lparr>price_dict = d, stdout = []\<rparr>"

text \<open>The prices 2.5 and 3.0, and two sales of 2 and 1.5 units.\<close>

definition shop_prices :: price_dict where
  "shop_prices = [KStr ''Widget'' \<mapsto> Fin (5 / 2), KStr ''Gadget'' \<mapsto> Fin 3]"

definition two_sales :: "json list" where
  "two_sales = [sale_record ''Widget'' (JInt 2), sale_record ''Gadget'' (JStr ''1.5'')]"

text \<open>A valid record, a record of a product that is not in the catalogue, and a number.\<close>

definition mixed_sales :: "json list" where
  "mixed_sales = [sale_record ''Widget'' (JInt 2), sale_record ''Gizmo'' (JInt 1), JInt 5]"

text \<open>
  The floats \<open>0.1\<close>, \<open>0.2\<close> and \<open>0.3\<close> as prices (the values of \<open>float("0.1")\<close>,
  \<open>float("0.2")\<close> and \<open>float("0.3")\<close>), and one unit of each product.
\<close>

definition tenths :: price_dict where
  "tenths = [KStr ''A'' \<mapsto> Fin (3602879701896397 / 36028797018963968),
             KStr ''B'' \<mapsto> Fin (3602879701896397 / 18014398509481984),
             KStr ''C'' \<mapsto> Fin (5404319552844595 / 18014398509481984)]"

definition one_of_each :: "json list" where
  "one_of_each = [sale_record ''A'' (JInt 1), sale_record ''B'' (JInt 1),
                  sale_record ''C'' (JInt 1)]"

text \<open>
  An invocation with one argument, in a directory that holds a report of an earlier
  run; and a parser that rejects every text.
\<close>

definition one_argument :: world where
  "one_argument =
     \<lparr>argv = [''computeSales.py'', ''priceCatalogue.json''],
      files = [''SalesResults.txt'' \<mapsto> Regular (utf8_encode ''Costo Total: $0.00'')],
      console = [], clock = (\<lambda>n. Fin 0), ticks = 0\<rparr>"

definition reject_all :: "nat list \<Rightarrow> exn + json" where
  "reject_all text = Inl JSONDecodeError"


section \<open>Properties\<close>

subsection \<open>The sales loop, one record at a time\<close>

lemma say_price_dict [simp]: "price_dict (say m s) = price_dict s"
  by (simp add: say_def)

lemma say_stdout [simp]: "stdout (say m s) = stdout s @ [m]"
  by (simp add: say_def print_def)

lemma process_sales_loop_Cons:
  "process_sales_loop (sale # rest) t n s =
     (case sale_step (price_dict s) sale of
        Accept c \<Rightarrow> process_sales_loop rest (fadd t c) n s
      | Reject m \<Rightarrow> process_sales_loop rest t (n + 1) (say m s)
      | Raise e \<Rightarrow> (Inl e, s))"
  by (simp add: sale_step_def split: sum.splits option.splits)

declare process_sales_loop.simps(2) [simp del]

lemma process_sales_loop_frame:
  "price_dict (snd (process_sales_loop sales t n s)) = price_dict s"
proof (induction sales arbitrary: t n s)
  case Nil
  show ?case by simp
next
  case (Cons sale rest)
  show ?case
    unfolding process_sales_loop_Cons
    by (cases "sale_step (price_dict s) sale") (simp_all add: Cons.IH)
qed

subsection \<open>Sales data that is not a list\<close>

text \<open>
  C5. If the sales tree is not a list, \<open>process_sales\<close> prints the format message and
  returns exactly \<open>(0.0, 0)\<close>, whatever the catalogue mapping is: no error is counted.
\<close>

theorem process_sales_not_list:
  "\<not> is_list sales_data \<Longrightarrow>
     process_sales sales_data s = (Inr (Fin 0, 0), say Msg_sales_format s)"
  by (cases sales_data) (simp_all add: process_sales_def)

theorem process_sales_not_list_witness:
  "\<not> is_list (JObj [(''Product'', JStr ''Widget''), (''Quantity'', JInt 3)]) \<and>
   process_sales (JObj [(''Product'', JStr ''Widget''), (''Quantity'', JInt 3)])
       \<lparr>price_dict = [KStr ''Widget'' \<mapsto> Fin 2], stdout = []\<rparr>
     = (Inr (Fin 0, 0),
        \<lparr>price_dict = [KStr ''Widget'' \<mapsto> Fin 2], stdout = [Msg_sales_format]\<rparr>)"
  using process_sales_not_list
    [of "JObj [(''Product'', JStr ''Widget''), (''Quantity'', JInt 3)]"
        "\<lparr>price_dict = [KStr ''Widget'' \<mapsto> Fin 2], stdout = []\<rparr>"]
  by (simp add: say_def print_def)

subsection \<open>The catalogue mapping is only read\<close>

text \<open>
  C10. \<open>process_sales\<close> leaves the catalogue mapping unchanged: for every mapping and
  every sales input, also when the function raises, the mapping in the memory after
  the call is the mapping before it.
\<close>

theorem process_sales_frame:
  "price_dict (snd (process_sales sales_data s)) = price_dict s"
  by (cases sales_data) (simp_all add: process_sales_def process_sales_loop_frame)


subsection \<open>The catalogue loop, one element at a time\<close>

lemma build_price_loop_Cons:
  "build_price_loop (product # rest) d out =
     (case entry_step product of
        Insert k p \<Rightarrow> build_price_loop rest (d(k \<mapsto> p)) out
      | Skip m \<Rightarrow> build_price_loop rest d (print m out)
      | Entry_raise e \<Rightarrow> (Inl e, out))"
  by (simp add: entry_step_def split: sum.splits)

declare build_price_loop.simps(2) [simp del]

lemma valid_entry_step:
  "valid_entry product =
     (case entry_step product of Insert k p \<Rightarrow> Some (k, p) | _ \<Rightarrow> None)"
  by (simp add: valid_entry_def entry_step_def split: sum.splits)

lemma upd_add_assoc: "d(k \<mapsto> p) ++ (m ++ [k \<mapsto> p]) = d ++ (m ++ [k \<mapsto> p])"
  by (rule ext) (simp add: map_add_def split: option.splits)

text \<open>
  When the loop returns, the mapping holds, for every key, the price of the last valid
  entry with that key.
\<close>

lemma build_price_loop_result:
  "build_price_loop products d out = (Inr d', out') \<Longrightarrow>
     d' = d ++ map_of (rev (List.map_filter valid_entry products))"
proof (induction products arbitrary: d out)
  case Nil
  then show ?case by (simp add: List.map_filter_simps)
next
  case (Cons product rest)
  show ?case
  proof (cases "entry_step product")
    case (Insert k p)
    with Cons.prems have "build_price_loop rest (d(k \<mapsto> p)) out = (Inr d', out')"
      by (simp add: build_price_loop_Cons)
    then have "d' = d(k \<mapsto> p) ++ map_of (rev (List.map_filter valid_entry rest))"
      by (rule Cons.IH)
    moreover have "valid_entry product = Some (k, p)"
      by (simp add: valid_entry_step Insert)
    ultimately show ?thesis
      by (simp add: List.map_filter_simps upd_add_assoc)
  next
    case (Skip m)
    with Cons.prems have "build_price_loop rest d (print m out) = (Inr d', out')"
      by (simp add: build_price_loop_Cons)
    then have "d' = d ++ map_of (rev (List.map_filter valid_entry rest))"
      by (rule Cons.IH)
    moreover have "valid_entry product = None"
      by (simp add: valid_entry_step Skip)
    ultimately show ?thesis
      by (simp add: List.map_filter_simps)
  next
    case (Entry_raise e)
    with Cons.prems show ?thesis
      by (simp add: build_price_loop_Cons)
  qed
qed

lemma entry_message_step:
  "entry_message product =
     (case entry_step product of Skip m \<Rightarrow> Some m | _ \<Rightarrow> None)"
  by (simp add: entry_message_def entry_step_def split: sum.splits)

lemma valid_entry_silent: "valid_entry product = Some kp \<Longrightarrow> entry_message product = None"
  by (cases "entry_step product") (simp_all add: valid_entry_step entry_message_step)

lemma build_price_loop_output:
  "build_price_loop products d out = (Inr d', out') \<Longrightarrow>
     out' = out @ List.map_filter entry_message products"
proof (induction products arbitrary: d out)
  case Nil
  then show ?case by (simp add: List.map_filter_simps)
next
  case (Cons product rest)
  show ?case
  proof (cases "entry_step product")
    case (Insert k p)
    with Cons.prems have "build_price_loop rest (d(k \<mapsto> p)) out = (Inr d', out')"
      by (simp add: build_price_loop_Cons)
    then have "out' = out @ List.map_filter entry_message rest"
      by (rule Cons.IH)
    moreover have "entry_message product = None"
      by (simp add: entry_message_step Insert)
    ultimately show ?thesis
      by (simp add: List.map_filter_simps)
  next
    case (Skip m)
    with Cons.prems have "build_price_loop rest d (print m out) = (Inr d', out')"
      by (simp add: build_price_loop_Cons)
    then have "out' = print m out @ List.map_filter entry_message rest"
      by (rule Cons.IH)
    moreover have "entry_message product = Some m"
      by (simp add: entry_message_step Skip)
    ultimately show ?thesis
      by (simp add: List.map_filter_simps print_def)
  next
    case (Entry_raise e)
    with Cons.prems show ?thesis
      by (simp add: build_price_loop_Cons)
  qed
qed

lemma map_of_rev_last:
  "\<forall>v. (k, v) \<notin> set ys \<Longrightarrow> map_of (rev (xs @ (k, p) # ys)) k = Some p"
proof -
  assume h: "\<forall>v. (k, v) \<notin> set ys"
  have "map_of (rev ys) k = None"
    using h by (simp add: map_of_eq_None_iff image_iff) force
  then show ?thesis
    by (simp add: map_add_def)
qed

subsection \<open>Evaluating the examples\<close>

lemma entry_step_widget_999:
  "entry_step (JObj [(''title'', JStr ''Widget''), (''price'', JStr ''9.99'')])
     = Insert (KStr ''Widget'') (Fin (5623870034678907 / 562949953421312))"
  by code_simp

lemma entry_step_widget_5:
  "entry_step (JObj [(''title'', JStr ''Widget''), (''price'', JInt 5)])
     = Insert (KStr ''Widget'') (Fin 5)"
  by code_simp

lemma entry_step_gadget_7:
  "entry_step (JObj [(''title'', JStr ''Gadget''), (''price'', JInt 7)])
     = Insert (KStr ''Gadget'') (Fin 7)"
  by code_simp

subsection \<open>A repeated title keeps its last price\<close>

text \<open>
  C6. In a catalogue list, the mapping that \<open>build_price_dict\<close> returns associates a
  title with the price of the last valid entry that has this title: whatever the
  entries before it hold (also valid entries with the same title), and given that no
  valid entry after it has the title. The overwriting is silent: the output consists of
  the messages of the skipped entries only, and a valid entry has none.
\<close>

theorem build_price_dict_last_wins:
  assumes "build_price_dict (JArr (xs @ product # ys)) out = (Inr d, out')"
    and "valid_entry product = Some (k, p)"
    and "\<forall>later \<in> set ys. \<forall>p'. valid_entry later \<noteq> Some (k, p')"
  shows "d k = Some p \<and> out' = out @ List.map_filter entry_message (xs @ product # ys)"
proof -
  have loop: "build_price_loop (xs @ product # ys) Map.empty out = (Inr d, out')"
    using assms(1) by (simp add: build_price_dict_def)
  then have "d = Map.empty ++ map_of (rev (List.map_filter valid_entry (xs @ product # ys)))"
    by (rule build_price_loop_result)
  moreover have "List.map_filter valid_entry (xs @ product # ys)
      = List.map_filter valid_entry xs @ (k, p) # List.map_filter valid_entry ys"
    using assms(2) by (simp add: List.map_filter_def)
  ultimately have "d k =
      map_of (rev (List.map_filter valid_entry xs @ (k, p) # List.map_filter valid_entry ys)) k"
    by simp
  moreover have "\<forall>v. (k, v) \<notin> set (List.map_filter valid_entry ys)"
    using assms(3) by (auto simp: List.map_filter_def)
  then have "map_of (rev (List.map_filter valid_entry xs @ (k, p) # List.map_filter valid_entry ys)) k
      = Some p"
    by (rule map_of_rev_last)
  ultimately have "d k = Some p"
    by simp
  moreover have "out' = out @ List.map_filter entry_message (xs @ product # ys)"
    using loop by (rule build_price_loop_output)
  ultimately show ?thesis
    by simp
qed

theorem build_price_dict_last_wins_witness:
  "build_price_dict
     (JArr [catalogue_entry ''Widget'' (JStr ''9.99''), catalogue_entry ''Widget'' (JInt 5),
            catalogue_entry ''Gadget'' (JInt 7)]) []
   = (Inr [KStr ''Widget'' \<mapsto> Fin 5, KStr ''Gadget'' \<mapsto> Fin 7], []) \<and>
   [KStr ''Widget'' \<mapsto> Fin 5, KStr ''Gadget'' \<mapsto> Fin 7] (KStr ''Widget'') = Some (Fin 5) \<and>
   List.map_filter entry_message
     [catalogue_entry ''Widget'' (JStr ''9.99''), catalogue_entry ''Widget'' (JInt 5),
      catalogue_entry ''Gadget'' (JInt 7)] = []"
proof -
  let ?w1 = "catalogue_entry ''Widget'' (JStr ''9.99'')"
  let ?w2 = "catalogue_entry ''Widget'' (JInt 5)"
  let ?g = "catalogue_entry ''Gadget'' (JInt 7)"
  let ?d = "[KStr ''Widget'' \<mapsto> Fin 5, KStr ''Gadget'' \<mapsto> Fin 7]"
  have run: "build_price_dict (JArr ([?w1] @ ?w2 # [?g])) [] = (Inr ?d, [])"
    by (simp add: build_price_dict_def build_price_loop_Cons catalogue_entry_def
        entry_step_widget_999 entry_step_widget_5 entry_step_gadget_7)
  have valid: "valid_entry ?w2 = Some (KStr ''Widget'', Fin 5)"
    by (simp add: valid_entry_step catalogue_entry_def entry_step_widget_5)
  have later: "\<forall>later \<in> set [?g]. \<forall>p'. valid_entry later \<noteq> Some (KStr ''Widget'', p')"
    by (simp add: valid_entry_step catalogue_entry_def entry_step_gadget_7)
  have "?d (KStr ''Widget'') = Some (Fin 5)
      \<and> [] = [] @ List.map_filter entry_message ([?w1] @ ?w2 # [?g])"
    by (rule build_price_dict_last_wins [OF run valid later])
  with run show ?thesis
    by simp
qed

subsection \<open>The result of the sales loop\<close>

lemma sale_value_step:
  "sale_value d sale = (case sale_step d sale of Accept c \<Rightarrow> Some c | _ \<Rightarrow> None)"
  by (simp add: sale_value_def sale_step_def split: sum.splits option.splits)

lemma valid_sale_not_raises: "valid_sale d sale \<Longrightarrow> \<not> sale_raises d sale"
  by (cases "sale_step d sale") (simp_all add: valid_sale_def sale_value_step sale_raises_def)

text \<open>
  On a sales list in which no record raises, the loop returns: the total is the sum,
  added from left to right in floating point, of the values of the valid records, and
  the error count is the number of the records that are not valid.
\<close>

lemma process_sales_loop_result:
  assumes "list_all (\<lambda>sale. \<not> sale_raises (price_dict s) sale) sales"
  shows "fst (process_sales_loop sales t n s)
     = Inr (foldl fadd t (List.map_filter (sale_value (price_dict s)) sales),
            n + length (filter (\<lambda>sale. \<not> valid_sale (price_dict s) sale) sales))"
  using assms
proof (induction sales arbitrary: t n s)
  case Nil
  show ?case by (simp add: List.map_filter_simps)
next
  case (Cons sale rest)
  from Cons.prems have rest: "list_all (\<lambda>sale. \<not> sale_raises (price_dict s) sale) rest"
    by simp
  show ?case
  proof (cases "sale_step (price_dict s) sale")
    case (Accept c)
    then show ?thesis
      using Cons.IH [OF rest, of "fadd t c" n]
      by (simp add: process_sales_loop_Cons sale_value_step valid_sale_def List.map_filter_simps)
  next
    case (Reject m)
    have "list_all (\<lambda>sale. \<not> sale_raises (price_dict (say m s)) sale) rest"
      using rest by simp
    from Cons.IH [OF this, of t "n + 1"] Reject show ?thesis
      by (simp add: process_sales_loop_Cons sale_value_step valid_sale_def List.map_filter_simps)
  next
    case (Raise e)
    with Cons.prems show ?thesis
      by (simp add: sale_raises_def)
  qed
qed

lemma process_sales_all_valid:
  assumes "list_all (valid_sale (price_dict s)) sales"
  shows "fst (process_sales (JArr sales) s)
     = Inr (foldl fadd (Fin 0) (map (sale_cost (price_dict s)) sales), 0)"
proof -
  have "list_all (\<lambda>sale. \<not> sale_raises (price_dict s) sale) sales"
    using assms by (simp add: list_all_iff valid_sale_not_raises)
  then have "fst (process_sales_loop sales (Fin 0) 0 s)
     = Inr (foldl fadd (Fin 0) (List.map_filter (sale_value (price_dict s)) sales),
            0 + length (filter (\<lambda>sale. \<not> valid_sale (price_dict s) sale) sales))"
    by (rule process_sales_loop_result)
  moreover have "List.map_filter (sale_value (price_dict s)) sales
      = map (sale_cost (price_dict s)) sales"
    using assms
    by (induction sales) (auto simp: List.map_filter_simps valid_sale_def sale_cost_def)
  moreover have "filter (\<lambda>sale. \<not> valid_sale (price_dict s) sale) sales = []"
    using assms by (simp add: list_all_iff)
  ultimately show ?thesis
    by (simp add: process_sales_def)
qed

subsection \<open>Records on which the sales loop raises\<close>

declare py_float.simps(3) [simp del]

lemma py_float_int_1: "py_float (JInt 1) = Inr (Fin 1)"
  by code_simp

lemma py_float_int_2: "py_float (JInt 2) = Inr (Fin 2)"
  by code_simp

lemma py_float_int_huge: "py_float (JInt (10 ^ 400)) = Inl OverflowError"
  by code_simp

text \<open>
  C1. The total is the sum of price times quantity over the valid records, and every
  other record counts one error. The code does not reach this on every sales list: a
  record whose \<open>Product\<close> is a list (an unhashable value) and whose \<open>Quantity\<close> is a
  number is not valid, yet \<open>process_sales\<close> counts no error for it; the lookup
  \<open>price_dict.get(product)\<close> raises \<open>TypeError\<close> outside every \<open>try\<close>, and no total
  is returned.
\<close>

theorem process_sales_unhashable_product:
  "process_sales
     (JArr [JObj [(''Product'', JArr [JStr ''Widget'']), (''Quantity'', JInt 1)]]) s
   = (Inl TypeError, s)"
  by (simp add: process_sales_def process_sales_loop_Cons sale_step_def dict_get_def
      py_float_int_1)

text \<open>
  C2. The error count is the number of rejected sale records. The code does not reach
  this on every sales list: for a record whose \<open>Quantity\<close> is an integer too large
  for a float, \<open>float(quantity)\<close> raises \<open>OverflowError\<close>, which the clause
  \<open>except (ValueError, TypeError)\<close> does not catch; no error count is returned.
\<close>

theorem process_sales_overflowing_quantity:
  "process_sales
     (JArr [JObj [(''Product'', JStr ''Widget''), (''Quantity'', JInt (10 ^ 400))]]) s
   = (Inl OverflowError, s)"
  by (simp add: process_sales_def process_sales_loop_Cons sale_step_def py_float_int_huge
      del: power_numeral)

subsection \<open>Catalogue entries on which the catalogue loop raises\<close>

text \<open>
  C3. \<open>build_price_dict\<close> does not skip every bad entry: on a list element that is not
  a mapping, \<open>product.get\<close> raises \<open>AttributeError\<close>, and on a price that is a list,
  \<open>float(price)\<close> raises \<open>TypeError\<close>, which \<open>except ValueError\<close> does not catch. Both
  exceptions reach the caller.
\<close>

theorem build_price_dict_raises:
  "build_price_dict (JArr [JInt 1]) out = (Inl AttributeError, out) \<and>
   build_price_dict
     (JArr [JObj [(''title'', JStr ''Widget''), (''price'', JArr [JInt 1])]]) out
   = (Inl TypeError, out)"
  by (simp add: build_price_dict_def build_price_loop_Cons entry_step_def)

subsection \<open>The order of the records\<close>

lemma foldl_fadd_exact:
  "(\<And>ps. prefix ps vs \<Longrightarrow> rnd (sum_list ps) = Fin (sum_list ps)) \<Longrightarrow>
     foldl fadd (Fin 0) (map Fin vs) = Fin (sum_list vs)"
proof (induction vs rule: rev_induct)
  case Nil
  show ?case by simp
next
  case (snoc x xs)
  have "foldl fadd (Fin 0) (map Fin xs) = Fin (sum_list xs)"
    by (rule snoc.IH) (simp add: snoc.prems)
  moreover have "rnd (sum_list (xs @ [x])) = Fin (sum_list (xs @ [x]))"
    by (rule snoc.prems) simp
  ultimately show ?case
    by simp
qed

lemma subseq_of_submset:
  "mset ps \<subseteq># mset vs \<Longrightarrow> \<exists>ys. subseq ys vs \<and> mset ys = mset ps"
proof (induction vs arbitrary: ps)
  case Nil
  then show ?case by simp
next
  case (Cons v vs)
  show ?case
  proof (cases "v \<in> set ps")
    case True
    have "mset (remove1 v ps) \<subseteq># mset vs"
      using Cons.prems by (simp add: subset_eq_diff_conv)
    then obtain ys where ys: "subseq ys vs" "mset ys = mset (remove1 v ps)"
      using Cons.IH by blast
    have "subseq (v # ys) (v # vs)" using ys(1) by simp
    moreover have "mset (v # ys) = mset ps"
      using ys(2) True by simp
    ultimately show ?thesis by blast
  next
    case False
    have "mset ps \<subseteq># mset vs"
      using Cons.prems False
      by (metis Diff_eq_empty_iff_mset minus_add_mset_if_not_in_lhs mset.simps(2) set_mset_mset)
    then obtain ys where ys: "subseq ys vs" "mset ys = mset ps"
      using Cons.IH by blast
    then show ?thesis by auto
  qed
qed

lemma prefix_submset: "prefix ps xs \<Longrightarrow> mset ps \<subseteq># mset xs"
  by (auto simp: prefix_def)

lemma is_fin_Fin_value: "is_fin c \<Longrightarrow> Fin (fin_value c) = c"
  by (cases c) simp_all

lemma exact_sums_fold:
  assumes "exact_sums cs" and "mset cs' = mset cs"
  shows "foldl fadd (Fin 0) cs' = Fin (sum_list (map fin_value cs))"
proof -
  let ?vs = "map fin_value cs" and ?vs' = "map fin_value cs'"
  have "set cs' = set cs"
    using assms(2) by (rule mset_eq_setD)
  then have "list_all is_fin cs'"
    using assms(1) by (simp add: exact_sums_def list_all_iff)
  then have cs': "map Fin ?vs' = cs'"
    by (induction cs') (simp_all add: is_fin_Fin_value)
  have perm: "mset ?vs' = mset ?vs"
    using assms(2) by simp
  have exact: "rnd (sum_list ps) = Fin (sum_list ps)" if "prefix ps ?vs'" for ps
  proof -
    from that have "mset ps \<subseteq># mset ?vs'"
      by (rule prefix_submset)
    then have "mset ps \<subseteq># mset ?vs"
      using perm by simp
    then obtain ys where ys: "subseq ys ?vs" "mset ys = mset ps"
      using subseq_of_submset by blast
    from ys(2) have "sum_list ys = sum_list ps"
      by (metis sum_mset_sum_list)
    moreover have "rnd (sum_list ys) = Fin (sum_list ys)"
      using assms(1) ys(1) by (simp add: exact_sums_def list_all_iff)
    ultimately show ?thesis by simp
  qed
  have "foldl fadd (Fin 0) (map Fin ?vs') = Fin (sum_list ?vs')"
    using exact by (rule foldl_fadd_exact)
  moreover have "sum_list ?vs' = sum_list ?vs"
    using perm by (metis sum_mset_sum_list)
  ultimately show ?thesis
    using cs' by simp
qed

text \<open>
  C7, as amended. For a sales list of valid records only, whose costs add up without
  rounding (every sub-collection of the costs has an exact sum that is a float),
  \<open>process_sales\<close> returns the same total and the same error count for every
  permutation of the list.
\<close>

theorem process_sales_order_independent:
  assumes "mset sales' = mset sales"
    and "list_all (valid_sale (price_dict s)) sales"
    and "exact_sums (map (sale_cost (price_dict s)) sales)"
  shows "fst (process_sales (JArr sales') s) = fst (process_sales (JArr sales) s)"
proof -
  let ?cost = "sale_cost (price_dict s)"
  have "set sales' = set sales"
    using assms(1) by (rule mset_eq_setD)
  then have valid': "list_all (valid_sale (price_dict s)) sales'"
    using assms(2) by (simp add: list_all_iff)
  have "mset (map ?cost sales') = mset (map ?cost sales)"
    using assms(1) by simp
  then have "foldl fadd (Fin 0) (map ?cost sales')
      = Fin (sum_list (map fin_value (map ?cost sales)))"
    by (rule exact_sums_fold [OF assms(3)])
  moreover have "foldl fadd (Fin 0) (map ?cost sales)
      = Fin (sum_list (map fin_value (map ?cost sales)))"
    by (rule exact_sums_fold [OF assms(3)]) simp
  ultimately show ?thesis
    by (simp add: process_sales_all_valid [OF valid'] process_sales_all_valid [OF assms(2)])
qed

theorem process_sales_order_independent_witness:
  "mset (rev two_sales) = mset two_sales \<and>
   list_all (valid_sale shop_prices) two_sales \<and>
   exact_sums (map (sale_cost shop_prices) two_sales) \<and>
   fst (process_sales (JArr (rev two_sales)) (with_prices shop_prices)) = Inr (Fin (19 / 2), 0) \<and>
   fst (process_sales (JArr two_sales) (with_prices shop_prices)) = Inr (Fin (19 / 2), 0)"
proof -
  have perm: "mset (rev two_sales) = mset two_sales"
    by simp
  have valid: "list_all (valid_sale shop_prices) two_sales"
    by code_simp
  have exact: "exact_sums (map (sale_cost shop_prices) two_sales)"
    by code_simp
  have run: "fst (process_sales (JArr two_sales) (with_prices shop_prices)) = Inr (Fin (19 / 2), 0)"
    by code_simp
  have "fst (process_sales (JArr (rev two_sales)) (with_prices shop_prices))
      = fst (process_sales (JArr two_sales) (with_prices shop_prices))"
    using perm valid exact
    by (intro process_sales_order_independent) (simp_all add: with_prices_def)
  with perm valid exact run show ?thesis
    by simp
qed

text \<open>The catalogue with the prices \<open>"0.1"\<close>, \<open>"0.2"\<close> and \<open>"0.3"\<close> gives the mapping \<open>tenths\<close>.\<close>

lemma tenths_catalogue:
  "build_price_dict
     (JArr [catalogue_entry ''A'' (JStr ''0.1''), catalogue_entry ''B'' (JStr ''0.2''),
            catalogue_entry ''C'' (JStr ''0.3'')]) []
   = (Inr tenths, [])"
proof -
  have "entry_step (catalogue_entry ''A'' (JStr ''0.1''))
      = Insert (KStr ''A'') (Fin (3602879701896397 / 36028797018963968))"
    by code_simp
  moreover have "entry_step (catalogue_entry ''B'' (JStr ''0.2''))
      = Insert (KStr ''B'') (Fin (3602879701896397 / 18014398509481984))"
    by code_simp
  moreover have "entry_step (catalogue_entry ''C'' (JStr ''0.3''))
      = Insert (KStr ''C'') (Fin (5404319552844595 / 18014398509481984))"
    by code_simp
  ultimately show ?thesis
    by (simp add: build_price_dict_def build_price_loop_Cons tenths_def)
qed

text \<open>
  With the prices 0.1, 0.2 and 0.3 and one unit of each product, the total is
  0.6000000000000001 when the records are taken in this order and 0.6 when they are
  taken in the reverse order.
\<close>

theorem total_cost_depends_on_order:
  "mset (rev one_of_each) = mset one_of_each \<and>
   list_all (valid_sale tenths) one_of_each \<and>
   fst (process_sales (JArr one_of_each) (with_prices tenths))
     = Inr (Fin (1351079888211149 / 2251799813685248), 0) \<and>
   fst (process_sales (JArr (rev one_of_each)) (with_prices tenths))
     = Inr (Fin (5404319552844595 / 9007199254740992), 0) \<and>
   fst (process_sales (JArr one_of_each) (with_prices tenths))
     \<noteq> fst (process_sales (JArr (rev one_of_each)) (with_prices tenths))"
proof -
  have perm: "mset (rev one_of_each) = mset one_of_each"
    by simp
  have valid: "list_all (valid_sale tenths) one_of_each"
    by code_simp
  have run1: "fst (process_sales (JArr one_of_each) (with_prices tenths))
      = Inr (Fin (1351079888211149 / 2251799813685248), 0)"
    by code_simp
  have run2: "fst (process_sales (JArr (rev one_of_each)) (with_prices tenths))
      = Inr (Fin (5404319552844595 / 9007199254740992), 0)"
    by code_simp
  have "fst (process_sales (JArr one_of_each) (with_prices tenths))
      \<noteq> fst (process_sales (JArr (rev one_of_each)) (with_prices tenths))"
    unfolding run1 run2 by simp
  with perm valid run1 run2 show ?thesis
    by simp
qed

subsection \<open>The sign of the total\<close>

lemma round_half_even_nonneg: "0 \<le> p \<Longrightarrow> 0 < q \<Longrightarrow> 0 \<le> round_half_even p q"
  by (simp add: round_half_even_def Let_def pos_imp_zdiv_nonneg_iff)

lemma rnd_frac_nonneg:
  assumes "0 \<le> p" and "0 < q" and "rnd_frac p q = (a, b)"
  shows "0 \<le> a \<and> 0 < b"
proof -
  let ?s = "max (ilog2 p q - 52) (- 1074)"
  have "0 \<le> round_half_even (p * 2 ^ nat (- ?s)) (q * 2 ^ nat ?s)"
    using assms(1,2) by (intro round_half_even_nonneg) simp_all
  then show ?thesis
    using assms(3) by (auto simp: rnd_frac_def Let_def)
qed

lemma rnd_nonneg: "0 \<le> x \<Longrightarrow> nonneg (rnd x)"
proof (cases "x = 0")
  case True
  then show ?thesis by (simp add: rnd_def)
next
  case False
  assume "0 \<le> x"
  with False have pos: "0 < x" by simp
  obtain p q where pq: "quotient_of \<bar>x\<bar> = (p, q)"
    by (cases "quotient_of \<bar>x\<bar>")
  then have q: "0 < q" by (rule quotient_of_denom_pos)
  have "\<bar>x\<bar> = of_int p / of_int q"
    using pq by (rule quotient_of_div)
  with pos have "0 < rat_of_int p / rat_of_int q"
    by simp
  with q have "0 < rat_of_int p"
    by (simp add: zero_less_divide_iff)
  then have p: "0 \<le> p"
    by simp
  obtain a b where ab: "rnd_frac p q = (a, b)"
    by (cases "rnd_frac p q")
  with p q have "0 \<le> a \<and> 0 < b"
    by (rule rnd_frac_nonneg)
  then have "0 \<le> rat_of_int a / rat_of_int b"
    by simp
  then show ?thesis
    using pos pq ab by (simp add: rnd_def del: power_numeral)
qed

lemma fmul_nonneg: "fin_nonneg a \<Longrightarrow> fin_nonneg b \<Longrightarrow> nonneg (fmul a b)"
  by (cases a; cases b) (simp_all add: rnd_nonneg)

lemma fadd_nonneg: "nonneg a \<Longrightarrow> nonneg b \<Longrightarrow> nonneg (fadd a b)"
  by (cases a; cases b) (simp_all add: rnd_nonneg)

lemma sale_step_nonneg:
  assumes "\<forall>p \<in> ran d. fin_nonneg p"
    and "\<forall>quantity q. py_get sale ''Quantity'' = Inr quantity \<longrightarrow> py_float quantity = Inr q \<longrightarrow> fin_nonneg q"
    and "sale_step d sale = Accept c"
  shows "nonneg c"
proof -
  from assms(3) obtain product quantity q price k where
    "py_get sale ''Quantity'' = Inr quantity" "py_float quantity = Inr q"
    "py_hash product = Inr k" "d k = Some price" "c = fmul price q"
    by (auto simp: sale_step_def dict_get_def split: if_splits sum.splits option.splits)
  moreover from this have "fin_nonneg q" "fin_nonneg price"
    using assms(1,2) by (auto simp: ran_def)
  ultimately show ?thesis
    by (simp add: fmul_nonneg)
qed

lemma process_sales_loop_nonneg:
  assumes "\<forall>p \<in> ran (price_dict s). fin_nonneg p"
    and "\<forall>sale \<in> set sales. \<forall>quantity q.
        py_get sale ''Quantity'' = Inr quantity \<longrightarrow> py_float quantity = Inr q \<longrightarrow> fin_nonneg q"
    and "nonneg t"
    and "process_sales_loop sales t n s = (Inr (t', n'), s')"
  shows "nonneg t'"
  using assms
proof (induction sales arbitrary: t n s)
  case Nil
  then show ?case by simp
next
  case (Cons sale rest)
  show ?case
  proof (cases "sale_step (price_dict s) sale")
    case (Accept c)
    have "nonneg c"
      using Cons.prems(1,2) Accept by (intro sale_step_nonneg [of "price_dict s" sale]) simp_all
    then have "nonneg (fadd t c)"
      using Cons.prems(3) by (simp add: fadd_nonneg)
    moreover have "process_sales_loop rest (fadd t c) n s = (Inr (t', n'), s')"
      using Cons.prems(4) Accept by (simp add: process_sales_loop_Cons)
    ultimately show ?thesis
      using Cons.prems(1,2) by (intro Cons.IH [of s "fadd t c" n]) simp_all
  next
    case (Reject m)
    have "process_sales_loop rest t (n + 1) (say m s) = (Inr (t', n'), s')"
      using Cons.prems(4) Reject by (simp add: process_sales_loop_Cons)
    then show ?thesis
      using Cons.prems(1,2,3) by (intro Cons.IH [of "say m s" t "n + 1"]) simp_all
  next
    case (Raise e)
    with Cons.prems(4) show ?thesis
      by (simp add: process_sales_loop_Cons)
  qed
qed

text \<open>
  C8, as amended. When every price of the catalogue mapping is finite and not negative,
  and every quantity of the sales records that coerces to a number is finite and not
  negative, the total that \<open>process_sales\<close> returns is not negative: a number that is
  at least zero, or \<open>inf\<close>. The sign of a price or of a quantity is not checked
  anywhere.
\<close>

theorem total_cost_nonneg:
  assumes "prices_nonneg (price_dict s)"
    and "quantities_nonneg (sale_records sales_data)"
    and "process_sales sales_data s = (Inr (total_cost, error_count), s')"
  shows "nonneg total_cost"
proof (cases "is_list sales_data")
  case True
  then obtain sales where sales: "sales_data = JArr sales"
    by (cases sales_data) simp_all
  then have "process_sales_loop sales (Fin 0) 0 s = (Inr (total_cost, error_count), s')"
    using assms(3) by (simp add: process_sales_def)
  moreover have "nonneg (Fin 0)"
    by simp
  ultimately show ?thesis
    using assms(1,2) sales unfolding quantities_nonneg_def prices_nonneg_def
    by (intro process_sales_loop_nonneg [of s sales "Fin 0" 0 total_cost error_count s']) simp_all
next
  case False
  then have "process_sales sales_data s = (Inr (Fin 0, 0), say Msg_sales_format s)"
    by (cases sales_data) (simp_all add: process_sales_def)
  with assms(3) have "total_cost = Fin 0"
    by simp
  then show ?thesis
    by simp
qed

theorem total_cost_nonneg_witness:
  "prices_nonneg shop_prices \<and>
   quantities_nonneg (sale_records (JArr mixed_sales)) \<and>
   fst (process_sales (JArr mixed_sales) (with_prices shop_prices)) = Inr (Fin 5, 2) \<and>
   nonneg (Fin 5)"
proof -
  have prices: "prices_nonneg (price_dict (with_prices shop_prices))"
    by (simp add: prices_nonneg_def with_prices_def shop_prices_def)
  have quantities: "quantities_nonneg (sale_records (JArr mixed_sales))"
    by (auto simp: quantities_nonneg_def mixed_sales_def sale_record_def
        py_float_int_1 py_float_int_2)
  have run: "fst (process_sales (JArr mixed_sales) (with_prices shop_prices)) = Inr (Fin 5, 2)"
    by code_simp
  then have "process_sales (JArr mixed_sales) (with_prices shop_prices)
      = (Inr (Fin 5, 2), snd (process_sales (JArr mixed_sales) (with_prices shop_prices)))"
    by (simp add: prod_eq_iff)
  with prices quantities have "nonneg (Fin 5)"
    by (rule total_cost_nonneg)
  with prices quantities run show ?thesis
    by (simp add: with_prices_def)
qed

text \<open>
  A negative quantity (two units returned) gives a negative total: the catalogue
  \<open>[{"title": "Widget", "price": 5}]\<close> and the sales
  \<open>[{"Product": "Widget", "Quantity": -2}]\<close> give \<open>-10.0\<close>.
\<close>

theorem total_cost_negative:
  "build_price_dict (JArr [catalogue_entry ''Widget'' (JInt 5)]) []
     = (Inr [KStr ''Widget'' \<mapsto> Fin 5], []) \<and>
   fst (process_sales (JArr [sale_record ''Widget'' (JInt (- 2))])
          (with_prices [KStr ''Widget'' \<mapsto> Fin 5]))
     = Inr (Fin (- 10), 0) \<and>
   \<not> nonneg (Fin (- 10))"
proof -
  have "build_price_dict (JArr [catalogue_entry ''Widget'' (JInt 5)]) []
      = (Inr [KStr ''Widget'' \<mapsto> Fin 5], [])"
    by (simp add: build_price_dict_def build_price_loop_Cons catalogue_entry_def
        entry_step_widget_5)
  moreover have
    "fst (process_sales (JArr [sale_record ''Widget'' (JInt (- 2))])
          (with_prices [KStr ''Widget'' \<mapsto> Fin 5]))
     = Inr (Fin (- 10), 0)"
    by code_simp
  ultimately show ?thesis
    by simp
qed


subsection \<open>A file that is not UTF-8\<close>

text \<open>
  C4. \<open>load_json_file\<close> does not turn every failure into a message and \<open>None\<close>: for a
  file whose content is the single byte \<open>0xFF\<close>, which is not valid UTF-8, reading the
  file raises \<open>UnicodeDecodeError\<close>. It is neither an \<open>IOError\<close> nor a
  \<open>json.JSONDecodeError\<close>, so the \<open>except\<close> clause does not catch it: nothing is
  printed and the exception reaches the caller, whatever the parser is.
\<close>

theorem load_json_file_invalid_utf8:
  "load_json_file loads ''salesRecord.json''
     \<lparr>argv = a, files = [''salesRecord.json'' \<mapsto> Regular [0xFF]], console = out,
      clock = c, ticks = n\<rparr>
   = (Inl UnicodeDecodeError,
      \<lparr>argv = a, files = [''salesRecord.json'' \<mapsto> Regular [0xFF]], console = out,
       clock = c, ticks = n\<rparr>)"
  by (simp add: load_json_file_def open_read_def json_load_def)

subsection \<open>A wrong number of arguments\<close>

text \<open>
  C9. When the number of command-line arguments is not two (\<open>sys.argv\<close> has not three
  elements), \<open>main\<close> prints the usage message and exits with status 1, and no file is
  written or changed: the file system after the run is the one before it.
\<close>

theorem main_usage:
  "length (argv w) \<noteq> 3 \<Longrightarrow>
     fst (main loads w) = Exit 1 \<and>
     console (snd (main loads w)) = console w @ [Msg_usage] \<and>
     files (snd (main loads w)) = files w"
  by (simp add: main_def time_time_def print_def)

theorem main_usage_witness:
  "length (argv one_argument) \<noteq> 3 \<and>
   fst (main reject_all one_argument) = Exit 1 \<and>
   console (snd (main reject_all one_argument)) = [Msg_usage] \<and>
   files (snd (main reject_all one_argument)) = files one_argument"
proof -
  have args: "length (argv one_argument) \<noteq> 3"
    by (simp add: one_argument_def)
  have "console one_argument = []"
    by (simp add: one_argument_def)
  with args main_usage [OF args, of reject_all] show ?thesis
    by simp
qed

end
